theory Spec2Isabelle
  imports Main "HOL-Library.Word"
begin

unbundle bit_operations_syntax

section \<open>BGP Extended Communities attribute: data model\<close>

text \<open>
  The embedding follows \<^verbatim>\<open>bgpd/bgp_ecommunity.h\<close>. Octets are \<open>8 word\<close>; the
  \<^verbatim>\<open>char val[8]\<close> array of a value and the \<^verbatim>\<open>u_int8_t *val\<close> buffer of an
  attribute are lists of octets.
\<close>

definition ECOMMUNITY_ENCODE_AS :: "8 word" where "ECOMMUNITY_ENCODE_AS = 0x00"
definition ECOMMUNITY_ENCODE_IP :: "8 word" where "ECOMMUNITY_ENCODE_IP = 0x01"
definition ECOMMUNITY_ENCODE_AS4 :: "8 word" where "ECOMMUNITY_ENCODE_AS4 = 0x02"
definition ECOMMUNITY_ENCODE_OPAQUE :: "8 word" where "ECOMMUNITY_ENCODE_OPAQUE = 0x03"
definition ECOMMUNITY_ENCODE_EVPN :: "8 word" where "ECOMMUNITY_ENCODE_EVPN = 0x06"

definition ECOMMUNITY_ROUTE_TARGET :: "8 word" where "ECOMMUNITY_ROUTE_TARGET = 0x02"
definition ECOMMUNITY_SITE_ORIGIN :: "8 word" where "ECOMMUNITY_SITE_ORIGIN = 0x03"

definition ECOMMUNITY_SIZE :: nat where "ECOMMUNITY_SIZE = 8"

lemmas ecommunity_consts =
  ECOMMUNITY_ENCODE_AS_def ECOMMUNITY_ENCODE_IP_def ECOMMUNITY_ENCODE_AS4_def
  ECOMMUNITY_ENCODE_OPAQUE_def ECOMMUNITY_ENCODE_EVPN_def
  ECOMMUNITY_ROUTE_TARGET_def ECOMMUNITY_SITE_ORIGIN_def ECOMMUNITY_SIZE_def

text \<open>
  \<^verbatim>\<open>struct ecommunity\<close>: the reference counter, the number of eight-octet values,
  the value buffer of \<open>size * 8\<close> octets and the cached text (a null pointer is
  \<open>None\<close>). The field \<^verbatim>\<open>size\<close> is named \<open>size_ec\<close>, since \<open>size\<close> is a constant of
  HOL. The counter is an \<^verbatim>\<open>unsigned long\<close>; it is counted here without a bound.
\<close>

record ecommunity =
  refcnt :: nat
  size_ec :: int
  val :: "8 word list"
  str :: "string option"

text \<open>\<^verbatim>\<open>struct ecommunity_val\<close>: one value, \<^verbatim>\<open>char val[ECOMMUNITY_SIZE]\<close>.\<close>

record ecommunity_val =
  val :: "8 word list"

text \<open>\<^verbatim>\<open>#define ecom_length(X) ((X)->size * ECOMMUNITY_SIZE)\<close>\<close>

definition ecom_length :: "ecommunity \<Rightarrow> int" where
  "ecom_length X = size_ec X * int ECOMMUNITY_SIZE"

text \<open>
  Modelled from the spec: the typedef \<^verbatim>\<open>as_t\<close> is not declared in the header. The
  spec (4.1) gives the AS4 form a 4-byte AS field that the same \<^verbatim>\<open>as_t\<close> argument
  fills, so \<^verbatim>\<open>as_t\<close> is an unsigned 32-bit integer.
\<close>

type_synonym as_t = "32 word"

text \<open>
  Modelled from the spec: \<^verbatim>\<open>struct in_addr\<close> comes from the system headers. The spec
  (4.1, 6) gives the IP form 4 address bytes; the structure is modelled as the four
  octets of its object representation, in memory order, which is what \<^verbatim>\<open>memcpy\<close>
  reads.
\<close>

datatype in_addr = In_addr "8 word" "8 word" "8 word" "8 word"

fun in_addr_bytes :: "in_addr \<Rightarrow> 8 word list" where
  "in_addr_bytes (In_addr b0 b1 b2 b3) = [b0, b1, b2, b3]"

definition sizeof_in_addr :: nat where
  "sizeof_in_addr = 4"

section \<open>Value codec: the route-target encoders\<close>

text \<open>
  The encoders write through the pointer \<^verbatim>\<open>eval\<close>; the model takes the value the
  pointer refers to and returns it updated. \<open>store_val i b\<close> is the assignment
  \<^verbatim>\<open>eval->val[i] = b\<close>; the conversion of the \<^verbatim>\<open>int\<close> or \<^verbatim>\<open>unsigned\<close> right-hand
  side to \<^verbatim>\<open>char\<close> keeps the low eight bits (\<open>ucast\<close>).
\<close>

definition store_val :: "nat \<Rightarrow> 8 word \<Rightarrow> ecommunity_val \<Rightarrow> ecommunity_val" where
  "store_val i b eval = eval\<lparr>ecommunity_val.val := (ecommunity_val.val eval)[i := b]\<rparr>"

text \<open>\<^verbatim>\<open>memcpy (&eval->val[off], src, n)\<close>, octet by octet.\<close>

definition memcpy_val :: "nat \<Rightarrow> 8 word list \<Rightarrow> nat \<Rightarrow> ecommunity_val \<Rightarrow> ecommunity_val" where
  "memcpy_val off src n eval = foldl (\<lambda>e i. store_val (off + i) (src ! i) e) eval [0..<n]"

definition encode_route_target_as :: "as_t \<Rightarrow> 32 word \<Rightarrow> ecommunity_val \<Rightarrow> ecommunity_val" where
  "encode_route_target_as as v eval =
     (let eval = store_val 0 ECOMMUNITY_ENCODE_AS eval;
          eval = store_val 1 ECOMMUNITY_ROUTE_TARGET eval;
          eval = store_val 2 (ucast (drop_bit 8 as AND 0xff)) eval;
          eval = store_val 3 (ucast (as AND 0xff)) eval;
          eval = store_val 4 (ucast (drop_bit 24 v AND 0xff)) eval;
          eval = store_val 5 (ucast (drop_bit 16 v AND 0xff)) eval;
          eval = store_val 6 (ucast (drop_bit 8 v AND 0xff)) eval;
          eval = store_val 7 (ucast (v AND 0xff)) eval
      in eval)"

definition encode_route_target_ip :: "in_addr \<Rightarrow> 16 word \<Rightarrow> ecommunity_val \<Rightarrow> ecommunity_val" where
  "encode_route_target_ip ip v eval =
     (let eval = store_val 0 ECOMMUNITY_ENCODE_IP eval;
          eval = store_val 1 ECOMMUNITY_ROUTE_TARGET eval;
          eval = memcpy_val 2 (in_addr_bytes ip) sizeof_in_addr eval;
          eval = store_val 6 (ucast (drop_bit 8 v AND 0xff)) eval;
          eval = store_val 7 (ucast (v AND 0xff)) eval
      in eval)"

definition encode_route_target_as4 :: "as_t \<Rightarrow> 16 word \<Rightarrow> ecommunity_val \<Rightarrow> ecommunity_val" where
  "encode_route_target_as4 as v eval =
     (let eval = store_val 0 ECOMMUNITY_ENCODE_AS4 eval;
          eval = store_val 1 ECOMMUNITY_ROUTE_TARGET eval;
          eval = store_val 2 (ucast (drop_bit 24 as AND 0xff)) eval;
          eval = store_val 3 (ucast (drop_bit 16 as AND 0xff)) eval;
          eval = store_val 4 (ucast (drop_bit 8 as AND 0xff)) eval;
          eval = store_val 5 (ucast (as AND 0xff)) eval;
          eval = store_val 6 (ucast (drop_bit 8 v AND 0xff)) eval;
          eval = store_val 7 (ucast (v AND 0xff)) eval
      in eval)"

text \<open>Reading a big-endian field back: the number a list of octets denotes.\<close>

fun be_nat :: "8 word list \<Rightarrow> nat" where
  "be_nat bs = foldl (\<lambda>acc b. 256 * acc + unat b) 0 bs"

text \<open>The octet of a word that starts at bit \<open>n\<close>: \<^verbatim>\<open>(w >> n) & 0xff\<close> stored into a \<^verbatim>\<open>char\<close>.\<close>

definition octet :: "nat \<Rightarrow> 'a::len word \<Rightarrow> 8 word" where
  "octet n w = ucast (drop_bit n w AND 0xff)"

section \<open>Octets of a machine word\<close>

lemma and_0xff: "(w::'a::len word) AND 0xff = take_bit 8 w"
proof -
  have "(0xff::'a word) = mask 8"
    by (simp add: mask_eq_exp_minus_1)
  then show ?thesis
    by (simp add: take_bit_eq_mask)
qed

lemma byte_of_word:
  "unat (ucast (drop_bit n (w::'a::len word) AND 0xff) :: 8 word) = unat w div 2 ^ n mod 256"
proof -
  have "unat (ucast (drop_bit n w AND 0xff) :: 8 word)
      = take_bit 8 (take_bit 8 (drop_bit n (take_bit LENGTH('a) (unat w))))"
    by (simp only: and_0xff unsigned_ucast_eq unsigned_take_bit_eq unsigned_drop_bit_eq) simp
  also have "\<dots> = unat w div 2 ^ n mod 256"
    by (simp add: take_bit_eq_mod drop_bit_eq_div unsigned_less)
  finally show ?thesis .
qed

lemma unat_octet: "unat (octet n w) = unat w div 2 ^ n mod 256"
  by (simp only: octet_def byte_of_word)

lemma unat_octet_less: "unat (octet n w) < 256"
  by (simp add: unat_octet)

lemma be32_split:
  fixes x :: nat
  assumes "x < 4294967296"
  shows "256 * (256 * (256 * (x div 16777216 mod 256) + x div 65536 mod 256)
           + x div 256 mod 256) + x mod 256 = x"
proof -
  define a where "a = x div 256"
  define b where "b = a div 256"
  define c where "c = b div 256"
  have x: "x = 256 * a + x mod 256"
    unfolding a_def by simp
  have a: "a = 256 * b + a mod 256"
    unfolding b_def by simp
  have b: "b = 256 * c + b mod 256"
    unfolding c_def by simp
  have b': "x div 65536 = b"
    unfolding b_def a_def by (simp add: div_mult2_eq)
  have c': "x div 16777216 = c"
    unfolding c_def b_def a_def by (simp add: div_mult2_eq)
  have "c < 256"
    using assms unfolding c' [symmetric] by simp
  then have c: "c mod 256 = c"
    by simp
  have "256 * (256 * (256 * c + b mod 256) + a mod 256) + x mod 256 = x"
    using x a b by simp
  then show ?thesis
    unfolding b' c' c a_def [symmetric] .
qed

lemma be16_split:
  fixes x :: nat
  shows "256 * (x div 256 mod 256) + x mod 256 = x mod 65536"
proof -
  have "x mod 65536 = x mod (256 * 256)"
    by simp
  also have "\<dots> = 256 * (x div 256 mod 256) + x mod 256"
    by (simp only: mod_mult2_eq)
  finally show ?thesis
    by simp
qed

lemma unat_word32_less: "unat (w::32 word) < 4294967296"
  using unsigned_less [of w] by simp

lemma unat_word16_less: "unat (w::16 word) < 65536"
  using unsigned_less [of w] by simp

lemma length8_cases:
  assumes "length xs = 8"
  obtains a b c d e f g h where "xs = [a, b, c, d, e, f, g, h]"
  using assms by (auto simp: length_Suc_conv eval_nat_numeral)

section \<open>What the encoders write\<close>

lemma encode_route_target_as_bytes:
  assumes "length (ecommunity_val.val eval) = 8"
  shows "ecommunity_val.val (encode_route_target_as as v eval) =
    [0x00, 0x02, octet 8 as, octet 0 as, octet 24 v, octet 16 v, octet 8 v, octet 0 v]"
  using assms
  by (elim length8_cases)
     (simp add: encode_route_target_as_def store_val_def ecommunity_consts octet_def)

lemma encode_route_target_ip_bytes:
  assumes "length (ecommunity_val.val eval) = 8"
  shows "ecommunity_val.val (encode_route_target_ip (In_addr b0 b1 b2 b3) v eval) =
    [0x01, 0x02, b0, b1, b2, b3, octet 8 v, octet 0 v]"
proof -
  have up: "[0..<4] = [0, 1, 2, 3]"
    by (simp add: upt_rec)
  show ?thesis
    using assms
    by (elim length8_cases)
       (simp add: encode_route_target_ip_def memcpy_val_def sizeof_in_addr_def up
          store_val_def ecommunity_consts octet_def)
qed

lemma encode_route_target_as4_bytes:
  assumes "length (ecommunity_val.val eval) = 8"
  shows "ecommunity_val.val (encode_route_target_as4 as v eval) =
    [0x02, 0x02, octet 24 as, octet 16 as, octet 8 as, octet 0 as, octet 8 v, octet 0 v]"
  using assms
  by (elim length8_cases)
     (simp add: encode_route_target_as4_def store_val_def ecommunity_consts octet_def)

section \<open>Claims about the value codec\<close>

text \<open>
  C8. For every AS number \<open>as\<close> and 32-bit discriminator \<open>v\<close>, the AS-form
  route-target encoder fills the value with exactly eight octets: octet 0 is the
  encoding type AS (\<open>0x00\<close>), octet 1 the sub-type Route-Target (\<open>0x02\<close>), octets 2-3
  are the AS number truncated to its low 16 bits, big-endian, and octets 4-7 are the
  discriminator, big-endian. The value written to starts as any array of eight octets.
\<close>

theorem encode_route_target_as_layout:
  assumes "length (ecommunity_val.val eval) = 8"
  shows "let bs = ecommunity_val.val (encode_route_target_as as v eval) in
           length bs = 8 \<and> bs ! 0 = 0x00 \<and> bs ! 1 = 0x02 \<and>
           be_nat (take 2 (drop 2 bs)) = unat as mod 2 ^ 16 \<and>
           be_nat (drop 4 bs) = unat v"
  using be32_split [OF unat_word32_less, of v] be16_split [of "unat as"]
  by (simp add: encode_route_target_as_bytes [OF assms] unat_octet)

theorem encode_route_target_as_layout_witness:
  "ecommunity_val.val (encode_route_target_as 0x12345 0xA0B0C0D \<lparr>ecommunity_val.val = replicate 8 0xff\<rparr>) ! 3 = 0x45
   \<and> be_nat (take 2 (drop 2 (ecommunity_val.val
         (encode_route_target_as 0x12345 0xA0B0C0D \<lparr>ecommunity_val.val = replicate 8 0xff\<rparr>)))) = 0x2345"
  using encode_route_target_as_layout [of "\<lparr>ecommunity_val.val = replicate 8 0xff\<rparr>" "0x12345" "0xA0B0C0D"]
  by (simp add: encode_route_target_as_def store_val_def ecommunity_consts Let_def)

text \<open>
  C9. The AS4-form route-target encoder is injective: octets 2-5 of its output read
  big-endian give back the AS number, octets 6-7 give back the discriminator, and two
  distinct pairs of inputs never produce the same eight octets, whatever the arrays
  written to held before. (Every \<open>as < 2^32\<close> and \<open>v < 2^16\<close> is a value of the
  argument types, so the types carry the claim's ranges.)
\<close>

theorem encode_route_target_as4_injective:
  assumes "length (ecommunity_val.val eval) = 8" and "length (ecommunity_val.val eval') = 8"
  shows "be_nat (take 4 (drop 2 (ecommunity_val.val (encode_route_target_as4 as v eval)))) = unat as
       \<and> be_nat (drop 6 (ecommunity_val.val (encode_route_target_as4 as v eval))) = unat v
       \<and> ((as, v) \<noteq> (as', v') \<longrightarrow>
            ecommunity_val.val (encode_route_target_as4 as v eval)
              \<noteq> ecommunity_val.val (encode_route_target_as4 as' v' eval'))"
proof -
  let ?bs = "ecommunity_val.val (encode_route_target_as4 as v eval)"
  let ?bs' = "ecommunity_val.val (encode_route_target_as4 as' v' eval')"
  have dec: "be_nat (take 4 (drop 2 (ecommunity_val.val (encode_route_target_as4 a w e)))) = unat a
        \<and> be_nat (drop 6 (ecommunity_val.val (encode_route_target_as4 a w e))) = unat w"
    if "length (ecommunity_val.val e) = 8" for a w e
  proof -
    have "unat a div 16777216 mod 256 = unat a div 16777216"
      using unat_word32_less [of a] by simp
    moreover have "unat w mod 65536 = unat w"
      using unat_word16_less [of w] by simp
    ultimately show ?thesis
      using be32_split [OF unat_word32_less, of a] be16_split [of "unat w"]
      by (simp add: encode_route_target_as4_bytes [OF that] unat_octet)
  qed
  have "as = as' \<and> v = v'" if "?bs = ?bs'"
  proof -
    from that dec [OF assms(1), of as v] dec [OF assms(2), of as' v']
    have "unat as = unat as'" "unat v = unat v'" by simp_all
    then show ?thesis by (simp add: word_unat_eq_iff)
  qed
  with dec [OF assms(1)] show ?thesis by blast
qed

theorem encode_route_target_as4_injective_witness:
  "be_nat (drop 6 (ecommunity_val.val
      (encode_route_target_as4 0x10000 7 \<lparr>ecommunity_val.val = replicate 8 0\<rparr>))) = 7
   \<and> ecommunity_val.val (encode_route_target_as4 0x10000 7 \<lparr>ecommunity_val.val = replicate 8 0\<rparr>)
     \<noteq> ecommunity_val.val (encode_route_target_as4 0x10000 8 \<lparr>ecommunity_val.val = replicate 8 0xff\<rparr>)"
  using encode_route_target_as4_injective
    [of "\<lparr>ecommunity_val.val = replicate 8 0\<rparr>" "\<lparr>ecommunity_val.val = replicate 8 0xff\<rparr>"
        "0x10000" 7 "0x10000" 8]
  by simp

text \<open>
  C10. The three route-target encoders never agree: the AS form writes \<open>0x00\<close>, the
  IP form \<open>0x01\<close> and the AS4 form \<open>0x02\<close> into octet 0; each encoder overwrites all
  eight octets, so its output depends on its typed arguments only and not on what the
  array held before; and no output of one encoder equals an output of another.
\<close>

theorem route_target_encoders_disjoint:
  assumes "length (ecommunity_val.val e1) = 8" and "length (ecommunity_val.val e2) = 8"
  shows "ecommunity_val.val (encode_route_target_as as v e1) ! 0 = 0x00
       \<and> ecommunity_val.val (encode_route_target_ip ip w e1) ! 0 = 0x01
       \<and> ecommunity_val.val (encode_route_target_as4 as4 w4 e1) ! 0 = 0x02
       \<and> encode_route_target_as as v e1 = encode_route_target_as as v e2
       \<and> encode_route_target_ip ip w e1 = encode_route_target_ip ip w e2
       \<and> encode_route_target_as4 as4 w4 e1 = encode_route_target_as4 as4 w4 e2
       \<and> encode_route_target_as as v e1 \<noteq> encode_route_target_ip ip w e2
       \<and> encode_route_target_as as v e1 \<noteq> encode_route_target_as4 as4 w4 e2
       \<and> encode_route_target_ip ip w e1 \<noteq> encode_route_target_as4 as4 w4 e2"
proof -
  obtain b0 b1 b2 b3 where ip: "ip = In_addr b0 b1 b2 b3"
    by (cases ip)
  note bytes = encode_route_target_as_bytes encode_route_target_ip_bytes
    encode_route_target_as4_bytes
  have eq: "x = y" if "ecommunity_val.val x = ecommunity_val.val y" for x y :: ecommunity_val
    using that by simp
  have neq: "x \<noteq> y" if "ecommunity_val.val x ! 0 \<noteq> ecommunity_val.val y ! 0"
    for x y :: ecommunity_val
    using that by auto
  show ?thesis
    unfolding ip
    by (intro conjI eq neq) (simp_all add: bytes [OF assms(1)] bytes [OF assms(2)])
qed

theorem route_target_encoders_disjoint_witness:
  "encode_route_target_as 2 2 \<lparr>ecommunity_val.val = replicate 8 0\<rparr>
     \<noteq> encode_route_target_as4 2 2 \<lparr>ecommunity_val.val = replicate 8 0xff\<rparr>
   \<and> encode_route_target_ip (In_addr 0 2 0 0) 2 \<lparr>ecommunity_val.val = replicate 8 0\<rparr>
     \<noteq> encode_route_target_as4 2 2 \<lparr>ecommunity_val.val = replicate 8 0xff\<rparr>"
proof -
  have len0: "length (ecommunity_val.val \<lparr>ecommunity_val.val = replicate 8 0\<rparr>) = 8"
    and len1: "length (ecommunity_val.val \<lparr>ecommunity_val.val = replicate 8 0xff\<rparr>) = 8"
    by simp_all
  from route_target_encoders_disjoint [OF len0 len1,
    where as = 2 and v = 2 and ip = "In_addr 0 2 0 0" and w = 2 and ?as4.0 = 2 and ?w4.0 = 2]
  show ?thesis
    by blast
qed

end
